theory Spec2Isabelle
  imports Complex_Main
begin

section \<open>The webcam streaming supervisor of moonraker-obico\<close>

text \<open>
  A shallow embedding of \<^verbatim>\<open>moonraker_obico/webcam_stream.py\<close>. Python integers are
  \<^typ>\<open>int\<close>, strings are \<^typ>\<open>string\<close>. Every exception the file raises is a plain
  \<^verbatim>\<open>Exception(message)\<close>; a function that can raise returns \<open>py_exception + 'a\<close>
  with \<open>Inl\<close> for the raise.
\<close>

subsection \<open>Bitrate and framerate\<close>

text \<open>\<^verbatim>\<open>bitrate_for_dim\<close>, lines 29-38.\<close>

definition bitrate_for_dim :: "int \<Rightarrow> int \<Rightarrow> int" where
  "bitrate_for_dim img_w img_h =
     (let dim = img_w * img_h in
      if dim \<le> 480 * 270 then 400 * 1000
      else if dim \<le> 960 * 540 then 1300 * 1000
      else if dim \<le> 1280 * 720 then 2000 * 1000
      else 3000 * 1000)"

text \<open>
  Lines 144-148 of \<^verbatim>\<open>ffmpeg_from_mjpeg\<close>: the framerate and the bitrate handed to
  ffmpeg. \<open>is_pro\<close> is the truth value of \<^verbatim>\<open>linked_printer.get('is_pro')\<close>.
  The source writes \<^verbatim>\<open>int(bitrate/4)\<close>: a float quotient, truncated. The four
  table values are multiples of 4 far below \<open>2 ^ 53\<close>, so the quotient is exact and the
  truncation is the integer quotient.
\<close>

definition fps_and_bitrate :: "int \<Rightarrow> int \<Rightarrow> bool \<Rightarrow> int \<times> int" where
  "fps_and_bitrate img_w img_h is_pro =
     (let bitrate = bitrate_for_dim img_w img_h;
          fps = 25
      in if \<not> is_pro then (5, bitrate div 4) else (fps, bitrate))"


subsection \<open>Strings\<close>

text \<open>\<^verbatim>\<open>'{}'.format(n)\<close> for an integer: its decimal digits, with a minus sign if negative.\<close>

definition digit :: "nat \<Rightarrow> char" where
  "digit d = ''0123456789'' ! d"

fun str_nat :: "nat \<Rightarrow> string" where
  "str_nat n =
     (if n < 10 then [digit n]
      else str_nat (n div 10) @ [digit (n mod 10)])"

declare str_nat.simps [simp del]

definition str_int :: "int \<Rightarrow> string" where
  "str_int i = (if i < 0 then CHR ''-'' # str_nat (nat (- i)) else str_nat (nat i))"

text \<open>\<^verbatim>\<open>s.split(c)\<close> for a one-character separator: every occurrence splits.\<close>

fun str_split :: "char \<Rightarrow> string \<Rightarrow> string list" where
  "str_split sep [] = [[]]"
| "str_split sep (c # cs) =
     (if c = sep then [] # str_split sep cs
      else (case str_split sep cs of
              w # ws \<Rightarrow> (c # w) # ws
            | [] \<Rightarrow> [[c]]))"


definition NL :: string where
  "NL = [CHR 0x0A]"

subsection \<open>Exceptions, processes, events\<close>

text \<open>
  The exceptions of the file: \<^verbatim>\<open>Exception(message)\<close>, raised by the file itself and
  by its collaborators, and \<^verbatim>\<open>psutil.TimeoutExpired\<close>, raised by a wait with a
  timeout. Both are caught by \<^verbatim>\<open>except Exception\<close>.
\<close>

datatype py_exception = Exception string | TimeoutExpired

text \<open>
  What a spawned process does, seen from the \<^verbatim>\<open>wait\<close> call on it: it exits with a
  status some seconds after the call starts, or it never exits.
\<close>

datatype proc_behaviour = ExitsAfter real int | NeverExits

text \<open>
  \<^verbatim>\<open>psutil.Popen.wait()\<close>, called without a timeout: it returns the exit status when
  the process exits and does not return while the process runs. \<open>None\<close> is the call
  that never returns.
\<close>

definition wait :: "proc_behaviour \<Rightarrow> int option" where
  "wait b = (case b of ExitsAfter t rc \<Rightarrow> Some rc | NeverExits \<Rightarrow> None)"

text \<open>
  \<^verbatim>\<open>psutil.Popen.wait(timeout=T)\<close>: it returns the exit status of a process that
  exits within \<open>T\<close> seconds and raises \<^verbatim>\<open>TimeoutExpired\<close> after \<open>T\<close> seconds
  otherwise.
\<close>

definition wait_timeout :: "real \<Rightarrow> proc_behaviour \<Rightarrow> py_exception + int" where
  "wait_timeout T b =
     (case b of
        ExitsAfter t rc \<Rightarrow> if t \<le> T then Inr rc else Inl TimeoutExpired
      | NeverExits \<Rightarrow> Inl TimeoutExpired)"

text \<open>
  The \<^verbatim>\<open>psutil.Popen\<close> object: the command line it was started with and its
  \<^verbatim>\<open>returncode\<close>, which is \<^verbatim>\<open>None\<close> until a \<^verbatim>\<open>wait\<close> has returned the exit status.
\<close>

record popen =
  args :: "string list"
  returncode :: "int option"

text \<open>
  The module global \<^verbatim>\<open>FFMPEG\<close> and the two fields of \<^verbatim>\<open>WebcamStreamer\<close> that the
  file assigns after construction.
\<close>

record state =
  FFMPEG :: string
  ffmpeg_proc :: "popen option"
  shutting_down :: bool

text \<open>What the code does to the outside, in the order it does it.\<close>

datatype event =
    LogDebug string
  | LogWarning string
  | LogError string
  | Popen "string list"
  | Nice int
  | Terminate
  | CpuWatchDog int int
  | StartThread string
  | CaptureException
  | CaptureMessage string
  | PostPrinterEvent string string string string

text \<open>
  What the outside answers during one call. \<open>spawn\<close> gives the behaviour of the process
  started with a command line (every \<^verbatim>\<open>Popen\<close> is taken to start its process).
  \<open>test_video\<close> and \<open>patched_ffmpeg\<close> are the two paths the file builds with
  \<^verbatim>\<open>os.path\<close> from its own location; \<open>JANUS_SERVER\<close> is the constant of
  \<^verbatim>\<open>janus.py\<close>. \<open>debian_version\<close> is the integer parsed from the output of
  \<^verbatim>\<open>cat /etc/debian_version\<close>, \<open>None\<close> when the parse raises. \<open>capture_jpeg n\<close> is
  what the \<open>n\<close>-th call of \<^verbatim>\<open>capture_jpeg\<close> does (\<open>Inr None\<close> returns \<^verbatim>\<open>None\<close>),
  \<open>get_image_info\<close> is the function of \<^verbatim>\<open>utils.py\<close>. \<open>stream_url\<close> is the
  configured URL, \<open>None\<close> when it is \<^verbatim>\<open>None\<close>. \<open>stderrdata\<close> is the text
  \<^verbatim>\<open>'{}'.format\<close> gives for the bytes \<^verbatim>\<open>communicate()\<close> read from the stderr pipe.
\<close>

record env =
  JANUS_SERVER :: string
  test_video :: string
  patched_ffmpeg :: string
  pi_version :: bool
  spawn :: "string list \<Rightarrow> proc_behaviour"
  debian_version :: "int option"
  capture_jpeg :: "nat \<Rightarrow> py_exception + string option"
  get_image_info :: "string \<Rightarrow> py_exception + (string \<times> int \<times> int)"
  stream_url :: "string option"
  is_pro :: bool
  stderrdata :: string

subsection \<open>Choosing the ffmpeg binary\<close>

text \<open>
  \<^verbatim>\<open>set_ffmpeg_if_needed\<close>, lines 63-77. The wait on \<^verbatim>\<open>cat\<close> has a timeout of 5
  seconds; its \<^verbatim>\<open>TimeoutExpired\<close> is not caught here.
\<close>

definition set_ffmpeg_if_needed :: "env \<Rightarrow> state \<Rightarrow> (py_exception + unit) \<times> state \<times> event list" where
  "set_ffmpeg_if_needed e s =
     (let argv = [''cat'', ''/etc/debian_version''];
          tr = [Popen argv]
      in case wait_timeout 5 (spawn e argv) of
           Inl x \<Rightarrow> (Inl x, s, tr)
         | Inr rc \<Rightarrow>
             if rc \<noteq> 0 then (Inr (), s, tr)
             else (case debian_version e of
                     None \<Rightarrow> (Inr (), s, tr)
                   | Some v \<Rightarrow>
                       if v \<ge> 11 then (Inr (), s\<lparr>FFMPEG := patched_ffmpeg e\<rparr>, tr)
                       else (Inr (), s, tr)))"

subsection \<open>Probing the encoder\<close>

text \<open>
  \<^verbatim>\<open>h264_encoder\<close>, lines 120-129. \<open>trial_cmd\<close> is line 124. The loop body starts the
  trial process and waits for it without a timeout (line 127); the result is \<open>None\<close>
  when that wait never returns. The events are the calls made up to that point.
  \<open>trial_argv\<close> names the command line of a trial, \<^verbatim>\<open>ffmpeg_cmd.split(' ')\<close>.
\<close>

definition trial_cmd :: "string \<Rightarrow> string \<Rightarrow> string \<Rightarrow> string" where
  "trial_cmd ffmpeg video encoder =
     ffmpeg @ '' -re -i '' @ video @ '' -pix_fmt yuv420p -vcodec '' @ encoder
       @ '' -an -f rtp rtp://localhost:8014?pkt_size=1300''"

fun h264_encoder_loop ::
  "string \<Rightarrow> string \<Rightarrow> (string list \<Rightarrow> proc_behaviour) \<Rightarrow> string list
     \<Rightarrow> (py_exception + string) option \<times> event list" where
  "h264_encoder_loop ffmpeg video sp [] =
     (Some (Inl (Exception
        ''No ffmpeg found, or ffmpeg does NOT support h264_omx/h264_v4l2m2m encoding.'')), [])"
| "h264_encoder_loop ffmpeg video sp (encoder # encoders) =
     (let ffmpeg_cmd = trial_cmd ffmpeg video encoder;
          argv = str_split CHR '' '' ffmpeg_cmd;
          tr = [LogDebug (''Popen: '' @ ffmpeg_cmd), Popen argv]
      in case wait (sp argv) of
           None \<Rightarrow> (None, tr)
         | Some rc \<Rightarrow>
             if rc = 0 then (Some (Inr encoder), tr)
             else (case h264_encoder_loop ffmpeg video sp encoders of
                     (r, tr') \<Rightarrow> (r, tr @ tr')))"

definition trial_argv :: "string \<Rightarrow> string \<Rightarrow> string \<Rightarrow> string list" where
  "trial_argv ffmpeg video encoder = str_split CHR '' '' (trial_cmd ffmpeg video encoder)"

definition h264_encoder ::
  "string \<Rightarrow> string \<Rightarrow> (string list \<Rightarrow> proc_behaviour)
     \<Rightarrow> (py_exception + string) option \<times> event list" where
  "h264_encoder ffmpeg video sp =
     h264_encoder_loop ffmpeg video sp [''h264_omx'', ''h264_v4l2m2m'']"

subsection \<open>Finding the resolution\<close>

text \<open>
  The body of \<^verbatim>\<open>get_webcam_resolution\<close>, lines 114-118, for one attempt: the outcome
  of \<^verbatim>\<open>capture_jpeg\<close> in that attempt, then \<^verbatim>\<open>get_image_info\<close>. \<^verbatim>\<open>not jpg\<close> holds
  for \<^verbatim>\<open>None\<close> and for empty bytes.
\<close>

definition get_webcam_resolution_body ::
  "(py_exception + string option) \<Rightarrow> (string \<Rightarrow> py_exception + (string \<times> int \<times> int))
     \<Rightarrow> py_exception + (string \<times> int \<times> int)" where
  "get_webcam_resolution_body captured info =
     (case captured of
        Inl x \<Rightarrow> Inl x
      | Inr None \<Rightarrow> Inl (Exception ''Not a valid jpeg source. Quiting ffmpeg.'')
      | Inr (Some jpg) \<Rightarrow>
          if jpg = [] then Inl (Exception ''Not a valid jpeg source. Quiting ffmpeg.'')
          else info jpg)"

text \<open>
  Modelled from the spec: the retry loop of the decorator
  \<^verbatim>\<open>backoff.on_exception(backoff.expo, Exception, max_tries=20)\<close> of line 112. The
  decorator is the \<^verbatim>\<open>backoff\<close> package's and is not under src/. It calls the
  function, counting the tries from 1; a result is returned; an exception is raised
  again when the count has reached \<open>max_tries\<close>, and otherwise the call is repeated
  after a delay. \<open>target n\<close> is the outcome of the \<open>n\<close>-th call. The result comes with
  the number of calls made; \<open>None\<close> is the loop that never ends.
\<close>

partial_function (option) on_exception ::
  "nat \<Rightarrow> (nat \<Rightarrow> py_exception + 'a) \<Rightarrow> nat \<Rightarrow> ((py_exception + 'a) \<times> nat) option" where
  "on_exception max_tries target tries =
     (let tries' = tries + 1 in
      case target tries' of
        Inr ret \<Rightarrow> Some (Inr ret, tries')
      | Inl x \<Rightarrow>
          if tries' = max_tries then Some (Inl x, tries')
          else on_exception max_tries target tries')"

text \<open>
  \<^verbatim>\<open>get_webcam_resolution\<close> as line 136 calls it: the body under the decorator with
  \<^verbatim>\<open>max_tries=20\<close>. \<open>capture n\<close> is the outcome of \<^verbatim>\<open>capture_jpeg\<close> in the
  \<open>n\<close>-th attempt.
\<close>

definition get_webcam_resolution ::
  "(nat \<Rightarrow> py_exception + string option) \<Rightarrow> (string \<Rightarrow> py_exception + (string \<times> int \<times> int))
     \<Rightarrow> ((py_exception + (string \<times> int \<times> int)) \<times> nat) option" where
  "get_webcam_resolution capture info =
     on_exception 20 (\<lambda>n. get_webcam_resolution_body (capture n) info) 0"

subsection \<open>Starting ffmpeg\<close>

text \<open>
  \<^verbatim>\<open>start_ffmpeg\<close>, lines 152-189. The process is started and stored in
  \<^verbatim>\<open>self.ffmpeg_proc\<close>, and the wait of line 161 has a timeout of 10 seconds. When it
  returns, the \<^verbatim>\<open>Popen\<close> object holds the exit status, and \<^verbatim>\<open>communicate()\<close> gives
  \<^verbatim>\<open>None\<close> for stdout, which was sent to the null device, and the bytes of stderr.
  When it times out, the CPU watchdog (line 169) and the thread that runs
  \<^verbatim>\<open>monitor_ffmpeg_process\<close> (lines 187-189) are started. \<open>start_cmd\<close> is line 153
  and \<open>start_argv\<close> names the command line, \<^verbatim>\<open>ffmpeg_cmd.split(' ')\<close>.
\<close>

definition start_cmd :: "env \<Rightarrow> string \<Rightarrow> state \<Rightarrow> string" where
  "start_cmd e ffmpeg_args s =
     FFMPEG s @ '' -loglevel error '' @ ffmpeg_args
       @ '' -bsf dump_extra -an -f rtp rtp://'' @ JANUS_SERVER e @ '':8004?pkt_size=1300''"


definition start_ffmpeg :: "env \<Rightarrow> string \<Rightarrow> state \<Rightarrow> (py_exception + unit) \<times> state \<times> event list" where
  "start_ffmpeg e ffmpeg_args s =
     (let ffmpeg_cmd = start_cmd e ffmpeg_args s;
          argv = str_split CHR '' '' ffmpeg_cmd;
          proc = \<lparr>args = argv, returncode = None\<rparr>;
          s1 = s\<lparr>ffmpeg_proc := Some proc\<rparr>;
          tr = [LogDebug (''Popen: '' @ ffmpeg_cmd), Popen argv, Nice 10]
      in case wait_timeout 10 (spawn e argv) of
           Inr rc \<Rightarrow>
             (let s2 = s1\<lparr>ffmpeg_proc := Some (proc\<lparr>returncode := Some rc\<rparr>)\<rparr>;
                  msg = ''STDOUT:'' @ NL @ ''None'' @ NL @ ''STDERR:'' @ NL @ stderrdata e @ NL
              in (Inl (Exception (''ffmpeg quit! This should not happen. Exit code: '' @ str_int rc)),
                  s2, tr @ [LogError msg]))
         | Inl TimeoutExpired \<Rightarrow>
             (Inr (), s1, tr @ [CpuWatchDog 80 20, StartThread ''monitor_ffmpeg_process''])
         | Inl x \<Rightarrow> (Inl x, s1, tr))"

subsection \<open>The pipeline\<close>

text \<open>The argument text of line 150.\<close>

definition stream_args :: "string \<Rightarrow> int \<Rightarrow> int \<Rightarrow> int \<Rightarrow> int \<Rightarrow> string \<Rightarrow> string" where
  "stream_args url fps bitrate img_w img_h encoder =
     ''-re -i '' @ url @ '' -filter:v fps='' @ str_int fps @ '' -b:v '' @ str_int bitrate
       @ '' -pix_fmt yuv420p -s '' @ str_int img_w @ ''x'' @ str_int img_h
       @ '' -flags:v +global_header -vcodec '' @ encoder"

text \<open>
  \<^verbatim>\<open>ffmpeg_from_mjpeg\<close>, lines 110-150. The result is \<open>None\<close> when a call in it never
  returns.
\<close>

definition ffmpeg_from_mjpeg :: "env \<Rightarrow> state \<Rightarrow> (py_exception + unit) option \<times> state \<times> event list" where
  "ffmpeg_from_mjpeg e s =
     (case set_ffmpeg_if_needed e s of
        (Inl x, s1, t1) \<Rightarrow> (Some (Inl x), s1, t1)
      | (Inr u, s1, t1) \<Rightarrow>
     (case h264_encoder (FFMPEG s1) (test_video e) (spawn e) of
        (None, t2) \<Rightarrow> (None, s1, t1 @ t2)
      | (Some (Inl x), t2) \<Rightarrow> (Some (Inl x), s1, t1 @ t2)
      | (Some (Inr encoder), t2) \<Rightarrow>
     (case get_webcam_resolution (capture_jpeg e) (get_image_info e) of
        None \<Rightarrow> (None, s1, t1 @ t2)
      | Some (Inl x, n) \<Rightarrow> (Some (Inl x), s1, t1 @ t2)
      | Some (Inr (fmt, img_w, img_h), n) \<Rightarrow>
     (case stream_url e of
        None \<Rightarrow>
          (Some (Inl (Exception ''stream_url not configured. Unable to stream the webcam.'')),
           s1, t1 @ t2)
      | Some url \<Rightarrow>
          if url = [] then
            (Some (Inl (Exception ''stream_url not configured. Unable to stream the webcam.'')),
             s1, t1 @ t2)
          else
            (case fps_and_bitrate img_w img_h (is_pro e) of
               (fps, bitrate) \<Rightarrow>
            (case start_ffmpeg e (stream_args url fps bitrate img_w img_h encoder) s1 of
               (r, s2, t3) \<Rightarrow> (Some r, s2, t1 @ t2 @ t3)))))))"

text \<open>\<^verbatim>\<open>video_pipeline\<close>, lines 92-107.\<close>

definition video_pipeline :: "env \<Rightarrow> state \<Rightarrow> unit option \<times> state \<times> event list" where
  "video_pipeline e s =
     (if \<not> pi_version e then
        (Some (), s, [LogWarning ''Not running on a Pi. Quiting video_pipeline.''])
      else
        (case ffmpeg_from_mjpeg e s of
           (None, s', tr) \<Rightarrow> (None, s', tr)
         | (Some (Inr u), s', tr) \<Rightarrow> (Some (), s', tr)
         | (Some (Inl x), s', tr) \<Rightarrow>
             (Some (), s',
              tr @ [CaptureException,
                    PostPrinterEvent ''moonraker-obico: Webcam Streaming Failed''
                      ''The webcam streaming failed to start. Obico is now streaming at 0.1 FPS.''
                      ''WARNING''
                      ''https://www.obico.io/docs/user-guides/webcam-stream-stuck-at-1-10-fps/''])))"

subsection \<open>Draining the diagnostic stream\<close>




subsection \<open>Teardown\<close>

text \<open>
  \<^verbatim>\<open>try: ... except Exception: pass\<close>, lines 196-199: both exceptions of the model are
  instances of \<^verbatim>\<open>Exception\<close>.
\<close>

definition try_except_pass :: "py_exception + unit \<Rightarrow> py_exception + unit" where
  "try_except_pass r =
     (case r of
        Inr u \<Rightarrow> Inr ()
      | Inl (Exception m) \<Rightarrow> Inr ()
      | Inl TimeoutExpired \<Rightarrow> Inr ())"

text \<open>
  \<^verbatim>\<open>restore\<close>, lines 192-201. \<open>terminated\<close> is what \<^verbatim>\<open>terminate()\<close> does when it is
  called: it returns, or it raises. Each event comes with the state the object has when
  the call is made.
\<close>

definition restore ::
  "(py_exception + unit) \<Rightarrow> state \<Rightarrow> (py_exception + unit) \<times> state \<times> (state \<times> event) list" where
  "restore terminated s =
     (let s1 = s\<lparr>shutting_down := True\<rparr> in
      case ffmpeg_proc s1 of
        None \<Rightarrow> (Inr (), s1\<lparr>ffmpeg_proc := None\<rparr>, [])
      | Some p \<Rightarrow>
          (case try_except_pass terminated of
             Inl x \<Rightarrow> (Inl x, s1, [(s1, Terminate)])
           | Inr u \<Rightarrow> (Inr (), s1\<lparr>ffmpeg_proc := None\<rparr>, [(s1, Terminate)])))"

subsection \<open>The object over its life\<close>

text \<open>
  The module is loaded with \<^verbatim>\<open>FFMPEG = 'ffmpeg'\<close> (line 20) and \<^verbatim>\<open>__init__\<close> sets the
  two fields (lines 88-89).
\<close>

definition init :: state where
  "init = \<lparr>FFMPEG = ''ffmpeg'', ffmpeg_proc = None, shutting_down = False\<rparr>"

text \<open>
  The methods of the object, each with what the outside answers during the call, and
  the state a call leaves, whether it returns, raises or never returns.
\<close>

datatype op =
    VideoPipeline env
  | FfmpegFromMjpeg env
  | StartFfmpeg env string
  | Restore "py_exception + unit"

fun step :: "op \<Rightarrow> state \<Rightarrow> state" where
  "step (VideoPipeline e) s = fst (snd (video_pipeline e s))"
| "step (FfmpegFromMjpeg e) s = fst (snd (ffmpeg_from_mjpeg e s))"
| "step (StartFfmpeg e ffmpeg_args) s = fst (snd (start_ffmpeg e ffmpeg_args s))"
| "step (Restore terminated) s = fst (snd (restore terminated s))"

fun run :: "op list \<Rightarrow> state \<Rightarrow> state" where
  "run [] s = s"
| "run (x # xs) s = run xs (step x s)"

subsection \<open>Inputs for the examples\<close>

text \<open>
  A device on which every spawned process exits with status 1 after two seconds and
  the camera gives no picture.
\<close>

definition example_env :: env where
  "example_env =
     \<lparr>JANUS_SERVER = ''127.0.0.1'',
      test_video = ''test-video.mp4'',
      patched_ffmpeg = ''rpi_os.11/32bits/ffmpeg'',
      pi_version = True,
      spawn = (\<lambda>argv. ExitsAfter 2 1),
      debian_version = Some 11,
      capture_jpeg = (\<lambda>n. Inr None),
      get_image_info = (\<lambda>jpg. Inr (''JPEG'', 640, 480)),
      stream_url = Some ''http://127.0.0.1/webcam/?action=stream'',
      is_pro = False,
      stderrdata = ''Unknown encoder''\<rparr>"

section \<open>Properties\<close>

subsection \<open>Helper lemmas\<close>



lemma on_exception_success:
  "k < N \<Longrightarrow> N \<le> m \<Longrightarrow> \<forall>i. k < i \<and> i < N \<longrightarrow> isl (target i) \<Longrightarrow> target N = Inr r
     \<Longrightarrow> on_exception m target k = Some (Inr r, N)"
proof (induction "N - k" arbitrary: k)
  case 0
  then show ?case by simp
next
  case (Suc d)
  show ?case
  proof (cases "Suc k = N")
    case True
    with Suc.prems show ?thesis
      by (subst on_exception.simps) (simp add: Let_def)
  next
    case False
    with Suc.prems have lt: "Suc k < N" by simp
    with Suc.prems have "isl (target (Suc k))" by simp
    then obtain x where x: "target (Suc k) = Inl x" by (cases "target (Suc k)") auto
    from lt Suc.prems have ne: "Suc k \<noteq> m" by simp
    have d: "d = N - Suc k" using Suc.hyps(2) by simp
    have "on_exception m target (Suc k) = Some (Inr r, N)"
      using Suc.hyps(1) [OF d lt] Suc.prems by simp
    with x ne show ?thesis
      by (subst on_exception.simps) (simp add: Let_def)
  qed
qed

lemma on_exception_exhausted:
  "k < m \<Longrightarrow> \<forall>i. k < i \<and> i \<le> m \<longrightarrow> isl (target i)
     \<Longrightarrow> on_exception m target k = Some (target m, m)"
proof (induction "m - k" arbitrary: k)
  case 0
  then show ?case by simp
next
  case (Suc d)
  from Suc.prems have "isl (target (Suc k))" by simp
  then obtain x where x: "target (Suc k) = Inl x" by (cases "target (Suc k)") auto
  show ?case
  proof (cases "Suc k = m")
    case True
    with x show ?thesis
      by (subst on_exception.simps) (simp add: Let_def)
  next
    case False
    with Suc.prems have lt: "Suc k < m" by simp
    have d: "d = m - Suc k" using Suc.hyps(2) by simp
    have "on_exception m target (Suc k) = Some (target m, m)"
      using Suc.hyps(1) [OF d lt] Suc.prems by simp
    with x False show ?thesis
      by (subst on_exception.simps) (simp add: Let_def)
  qed
qed

lemma set_ffmpeg_if_needed_flag:
  "set_ffmpeg_if_needed e s = (r, s', tr) \<Longrightarrow> shutting_down s' = shutting_down s"
  by (auto simp add: set_ffmpeg_if_needed_def Let_def split: sum.splits option.splits if_splits)

lemma start_ffmpeg_flag:
  "start_ffmpeg e a s = (r, s', tr) \<Longrightarrow> shutting_down s' = shutting_down s"
  by (auto simp add: start_ffmpeg_def Let_def split: sum.splits py_exception.splits)

lemma ffmpeg_from_mjpeg_flag:
  "ffmpeg_from_mjpeg e s = (r, s', tr) \<Longrightarrow> shutting_down s' = shutting_down s"
  unfolding ffmpeg_from_mjpeg_def
  by (auto split: sum.splits option.splits prod.splits if_splits
      dest: set_ffmpeg_if_needed_flag start_ffmpeg_flag)

lemma video_pipeline_flag:
  "video_pipeline e s = (r, s', tr) \<Longrightarrow> shutting_down s' = shutting_down s"
  unfolding video_pipeline_def
  by (auto split: sum.splits option.splits prod.splits if_splits
      dest: ffmpeg_from_mjpeg_flag)

lemma restore_flag: "shutting_down (fst (snd (restore t s)))"
  by (cases t; cases "ffmpeg_proc s")
     (auto simp add: restore_def try_except_pass_def Let_def split: py_exception.splits)

lemma step_flag_eq:
  "shutting_down (step x s) = (shutting_down s \<or> (\<exists>t. x = Restore t))"
proof (cases x)
  case (VideoPipeline e)
  then show ?thesis
    using video_pipeline_flag [of e s] by (cases "video_pipeline e s") auto
next
  case (FfmpegFromMjpeg e)
  then show ?thesis
    using ffmpeg_from_mjpeg_flag [of e s] by (cases "ffmpeg_from_mjpeg e s") auto
next
  case (StartFfmpeg e a)
  then show ?thesis
    using start_ffmpeg_flag [of e a s] by (cases "start_ffmpeg e a s") auto
next
  case (Restore t)
  then show ?thesis by (simp add: restore_flag)
qed

lemma step_flag: "shutting_down s \<Longrightarrow> shutting_down (step x s)"
  by (simp add: step_flag_eq)

lemma run_flag: "shutting_down s \<Longrightarrow> shutting_down (run xs s)"
  by (induction xs arbitrary: s) (simp_all add: step_flag)

lemma run_append: "run (xs @ ys) s = run ys (run xs s)"
  by (induction xs arbitrary: s) simp_all

subsection \<open>The claims\<close>





text \<open>
  C3. \<^verbatim>\<open>h264_encoder\<close> tries \<^verbatim>\<open>h264_omx\<close> first. If its trial exits with status
  0 it is returned and \<^verbatim>\<open>h264_v4l2m2m\<close> is never started. If it exits with another
  status, \<^verbatim>\<open>h264_v4l2m2m\<close> is tried and returned when its trial exits with status 0;
  when both trials exit with another status the exception is raised.
\<close>

theorem h264_encoder_first_success:
  "(sp (trial_argv f v ''h264_omx'') = ExitsAfter t1 0 \<longrightarrow>
      h264_encoder f v sp =
        (Some (Inr ''h264_omx''),
         [LogDebug (''Popen: '' @ trial_cmd f v ''h264_omx''), Popen (trial_argv f v ''h264_omx'')]))
   \<and> (sp (trial_argv f v ''h264_omx'') = ExitsAfter t1 r1 \<and> r1 \<noteq> 0
        \<and> sp (trial_argv f v ''h264_v4l2m2m'') = ExitsAfter t2 0 \<longrightarrow>
      h264_encoder f v sp =
        (Some (Inr ''h264_v4l2m2m''),
         [LogDebug (''Popen: '' @ trial_cmd f v ''h264_omx''), Popen (trial_argv f v ''h264_omx''),
          LogDebug (''Popen: '' @ trial_cmd f v ''h264_v4l2m2m''),
          Popen (trial_argv f v ''h264_v4l2m2m'')]))
   \<and> (sp (trial_argv f v ''h264_omx'') = ExitsAfter t1 r1 \<and> r1 \<noteq> 0
        \<and> sp (trial_argv f v ''h264_v4l2m2m'') = ExitsAfter t2 r2 \<and> r2 \<noteq> 0 \<longrightarrow>
      h264_encoder f v sp =
        (Some (Inl (Exception
           ''No ffmpeg found, or ffmpeg does NOT support h264_omx/h264_v4l2m2m encoding.'')),
         [LogDebug (''Popen: '' @ trial_cmd f v ''h264_omx''), Popen (trial_argv f v ''h264_omx''),
          LogDebug (''Popen: '' @ trial_cmd f v ''h264_v4l2m2m''),
          Popen (trial_argv f v ''h264_v4l2m2m'')]))"
  by (simp add: h264_encoder_def trial_argv_def wait_def Let_def)

theorem h264_encoder_first_success_witness:
  "h264_encoder ''ffmpeg'' ''test-video.mp4'' (\<lambda>argv. ExitsAfter 4 0)
     = (Some (Inr ''h264_omx''),
        [LogDebug (''Popen: '' @ trial_cmd ''ffmpeg'' ''test-video.mp4'' ''h264_omx''),
         Popen [''ffmpeg'', ''-re'', ''-i'', ''test-video.mp4'', ''-pix_fmt'', ''yuv420p'',
                ''-vcodec'', ''h264_omx'', ''-an'', ''-f'', ''rtp'',
                ''rtp://localhost:8014?pkt_size=1300'']])
   \<and> fst (h264_encoder ''ffmpeg'' ''test-video.mp4''
        (\<lambda>argv. if argv = trial_argv ''ffmpeg'' ''test-video.mp4'' ''h264_v4l2m2m''
                 then ExitsAfter 4 0 else ExitsAfter 1 1))
     = Some (Inr ''h264_v4l2m2m'')
   \<and> fst (h264_encoder ''ffmpeg'' ''test-video.mp4'' (\<lambda>argv. ExitsAfter 1 1))
     = Some (Inl (Exception
           ''No ffmpeg found, or ffmpeg does NOT support h264_omx/h264_v4l2m2m encoding.''))"
  using h264_encoder_first_success
          [of "\<lambda>argv. ExitsAfter 4 0" "''ffmpeg''" "''test-video.mp4''" 4 1 4 1]
        h264_encoder_first_success
          [of "\<lambda>argv. if argv = trial_argv ''ffmpeg'' ''test-video.mp4'' ''h264_v4l2m2m''
                 then ExitsAfter 4 0 else ExitsAfter 1 1" "''ffmpeg''" "''test-video.mp4''" 1 1 4 1]
        h264_encoder_first_success
          [of "\<lambda>argv. ExitsAfter 1 1" "''ffmpeg''" "''test-video.mp4''" 1 1 1 1]
  by (simp add: trial_argv_def trial_cmd_def)

text \<open>
  C4, as amended. The wait on a trial process has no timeout: \<^verbatim>\<open>h264_encoder\<close>
  never returns exactly when a trial it starts never exits, that is when the first
  trial never exits, or the first exits with a status other than 0 and the second
  never exits.
\<close>

theorem h264_encoder_blocks_iff:
  "fst (h264_encoder f v sp) = None \<longleftrightarrow>
     (sp (trial_argv f v ''h264_omx'') = NeverExits
      \<or> (\<exists>t r. sp (trial_argv f v ''h264_omx'') = ExitsAfter t r \<and> r \<noteq> 0)
          \<and> sp (trial_argv f v ''h264_v4l2m2m'') = NeverExits)"
  by (auto simp add: h264_encoder_def trial_argv_def wait_def Let_def
      split: proc_behaviour.splits prod.splits)

text \<open>
  C4 as stated fails: with a trial process that never exits, \<^verbatim>\<open>h264_encoder\<close> never
  returns.
\<close>

theorem h264_encoder_hang_counterexample:
  "fst (h264_encoder ''ffmpeg'' ''test-video.mp4'' (\<lambda>argv. NeverExits)) = None"
  by (simp add: h264_encoder_def wait_def Let_def)

text \<open>
  C5. If the attempts before the \<open>N\<close>-th raise and the \<open>N\<close>-th returns a sample, with
  \<open>N\<close> from 1 to 20, \<^verbatim>\<open>get_webcam_resolution\<close> returns that sample after \<open>N\<close>
  attempts. If all of the first 20 attempts raise, it raises the exception of the 20th
  after exactly 20 attempts.
\<close>

theorem get_webcam_resolution_retries:
  "(1 \<le> N \<and> N \<le> 20
      \<and> (\<forall>i. 1 \<le> i \<and> i < N \<longrightarrow> isl (get_webcam_resolution_body (capture i) info))
      \<and> get_webcam_resolution_body (capture N) info = Inr r
      \<longrightarrow> get_webcam_resolution capture info = Some (Inr r, N))
   \<and> ((\<forall>i. 1 \<le> i \<and> i \<le> 20 \<longrightarrow> isl (get_webcam_resolution_body (capture i) info))
      \<longrightarrow> get_webcam_resolution capture info
            = Some (get_webcam_resolution_body (capture 20) info, 20)
          \<and> isl (get_webcam_resolution_body (capture 20) info))"
proof (intro conjI impI)
  assume a: "1 \<le> N \<and> N \<le> 20
      \<and> (\<forall>i. 1 \<le> i \<and> i < N \<longrightarrow> isl (get_webcam_resolution_body (capture i) info))
      \<and> get_webcam_resolution_body (capture N) info = Inr r"
  then show "get_webcam_resolution capture info = Some (Inr r, N)"
    unfolding get_webcam_resolution_def
    by (intro on_exception_success) auto
next
  assume a: "\<forall>i. 1 \<le> i \<and> i \<le> 20 \<longrightarrow> isl (get_webcam_resolution_body (capture i) info)"
  then show "get_webcam_resolution capture info
            = Some (get_webcam_resolution_body (capture 20) info, 20)"
    unfolding get_webcam_resolution_def
    by (intro on_exception_exhausted) auto
  from a show "isl (get_webcam_resolution_body (capture 20) info)" by simp
qed

theorem get_webcam_resolution_retries_witness:
  "get_webcam_resolution (\<lambda>n. if n < 3 then Inr None else Inr (Some ''jpg''))
       (\<lambda>jpg. Inr (''JPEG'', 640, 480))
     = Some (Inr (''JPEG'', 640, 480), 3)
   \<and> get_webcam_resolution (\<lambda>n. Inr None) (\<lambda>jpg. Inr (''JPEG'', 640, 480))
     = Some (Inl (Exception ''Not a valid jpeg source. Quiting ffmpeg.''), 20)"
  using get_webcam_resolution_retries
          [of 3 "\<lambda>n. if n < 3 then Inr None else Inr (Some ''jpg'')"
              "\<lambda>jpg. Inr (''JPEG'', 640, 480)" "(''JPEG'', 640, 480)"]
        get_webcam_resolution_retries
          [of 1 "\<lambda>n. Inr None" "\<lambda>jpg. Inr (''JPEG'', 640, 480)"]
  by (simp add: get_webcam_resolution_body_def)

text \<open>
  C6. On the full tier the framerate is 25 and the bitrate is the table value for the
  pixel area (400000 up to 480*270, 1300000 up to 960*540, 2000000 up to 1280*720,
  3000000 above); on the restricted tier the framerate is 5 and the bitrate is that
  value divided by 4. (1640, 1232) restricted gives (5, 750000) and (960, 540) full
  gives (25, 1300000).
\<close>

theorem fps_and_bitrate_table:
  "fps_and_bitrate w h True =
     (25, if w * h \<le> 480 * 270 then 400000
          else if w * h \<le> 960 * 540 then 1300000
          else if w * h \<le> 1280 * 720 then 2000000
          else 3000000)
   \<and> fps_and_bitrate w h False =
     (5, (if w * h \<le> 480 * 270 then 400000
          else if w * h \<le> 960 * 540 then 1300000
          else if w * h \<le> 1280 * 720 then 2000000
          else 3000000) div 4)
   \<and> fps_and_bitrate 1640 1232 False = (5, 750000)
   \<and> fps_and_bitrate 960 540 True = (25, 1300000)"
  by (simp add: fps_and_bitrate_def bitrate_for_dim_def Let_def)

text \<open>
  C7. The bitrate does not decrease when the pixel area grows, on either tier; the
  restricted tier's bitrate is the full tier's divided by 4 (integer division) for the
  same resolution; the bitrate is positive and the framerate is 5 or 25.
\<close>

theorem bitrate_monotone_quarter_bounds:
  "(w1 * h1 \<le> w2 * h2 \<longrightarrow>
      bitrate_for_dim w1 h1 \<le> bitrate_for_dim w2 h2
      \<and> snd (fps_and_bitrate w1 h1 p) \<le> snd (fps_and_bitrate w2 h2 p))
   \<and> snd (fps_and_bitrate w h False) = snd (fps_and_bitrate w h True) div 4
   \<and> 0 < snd (fps_and_bitrate w h p)
   \<and> fst (fps_and_bitrate w h p) \<in> {5, 25}"
  by (simp add: fps_and_bitrate_def bitrate_for_dim_def Let_def)

theorem bitrate_monotone_quarter_bounds_witness:
  "(480::int) * 270 \<le> 960 * 540
   \<and> bitrate_for_dim 480 270 \<le> bitrate_for_dim 960 540
   \<and> snd (fps_and_bitrate 480 270 False) \<le> snd (fps_and_bitrate 960 540 False)
   \<and> snd (fps_and_bitrate 480 270 False) = 100000
   \<and> snd (fps_and_bitrate 960 540 False) = 325000"
  using bitrate_monotone_quarter_bounds [of 480 270 960 540 False 480 270]
  by (simp add: fps_and_bitrate_def bitrate_for_dim_def Let_def)

text \<open>
  C8. \<^verbatim>\<open>restore\<close> requests the termination only with the shutdown flag already set
  and the handle still in place; it leaves the handle field \<^verbatim>\<open>None\<close> and the flag
  set; a second call returns without an event and leaves the state as it is; and with
  no process it returns without an event.
\<close>

theorem restore_order_release_idempotent:
  "snd (snd (restore t s)) =
     (case ffmpeg_proc s of None \<Rightarrow> [] | Some p \<Rightarrow> [(s\<lparr>shutting_down := True\<rparr>, Terminate)])
   \<and> (\<forall>(st, ev) \<in> set (snd (snd (restore t s))). shutting_down st \<and> ffmpeg_proc st = ffmpeg_proc s)
   \<and> fst (snd (restore t s)) = s\<lparr>ffmpeg_proc := None, shutting_down := True\<rparr>
   \<and> restore t' (fst (snd (restore t s))) = (Inr (), fst (snd (restore t s)), [])
   \<and> (ffmpeg_proc s = None \<longrightarrow>
        restore t s = (Inr (), s\<lparr>shutting_down := True\<rparr>, []))"
  by (cases t; cases "ffmpeg_proc s")
     (auto simp add: restore_def try_except_pass_def Let_def split: py_exception.splits)

theorem restore_order_release_idempotent_witness:
  "restore (Inl (Exception ''no such process''))
       (init\<lparr>ffmpeg_proc := Some \<lparr>args = [''ffmpeg''], returncode = None\<rparr>\<rparr>)
     = (Inr (), init\<lparr>shutting_down := True\<rparr>,
        [(init\<lparr>ffmpeg_proc := Some \<lparr>args = [''ffmpeg''], returncode = None\<rparr>,
               shutting_down := True\<rparr>, Terminate)])
   \<and> restore (Inr ()) (init\<lparr>shutting_down := True\<rparr>) = (Inr (), init\<lparr>shutting_down := True\<rparr>, [])
   \<and> restore (Inr ()) init = (Inr (), init\<lparr>shutting_down := True\<rparr>, [])"
  using restore_order_release_idempotent
          [of "Inl (Exception ''no such process'')"
              "init\<lparr>ffmpeg_proc := Some \<lparr>args = [''ffmpeg''], returncode = None\<rparr>\<rparr>" "Inr ()"]
        restore_order_release_idempotent [of "Inr ()" init "Inr ()"]
  by (simp add: init_def restore_def try_except_pass_def)

text \<open>
  C9. The flag is false after construction; no method resets it; the only method that
  changes it is \<^verbatim>\<open>restore\<close>, from false to true; once it is true in a run of
  methods, it is true after every longer run.
\<close>

theorem shutting_down_false_to_true_only:
  "\<not> shutting_down init
   \<and> (shutting_down s \<longrightarrow> shutting_down (step x s))
   \<and> (shutting_down (step x s) \<noteq> shutting_down s \<longrightarrow>
        \<not> shutting_down s \<and> (\<exists>t. x = Restore t))
   \<and> shutting_down (step (Restore t) s)
   \<and> (shutting_down (run xs init) \<longrightarrow> shutting_down (run (xs @ ys) init))"
proof (intro conjI impI)
  show "\<not> shutting_down init" by (simp add: init_def)
  show "shutting_down (step x s)" if "shutting_down s" using that by (rule step_flag)
  show "shutting_down (step (Restore t) s)" by (simp add: restore_flag)
  show "shutting_down (run (xs @ ys) init)" if "shutting_down (run xs init)"
    using that by (simp add: run_append run_flag)
  assume ne: "shutting_down (step x s) \<noteq> shutting_down s"
  then show "\<not> shutting_down s" using step_flag [of s x] by auto
  from ne show "\<exists>t. x = Restore t"
    by (auto simp add: step_flag_eq)
qed

theorem shutting_down_false_to_true_only_witness:
  "\<not> shutting_down (run [StartFfmpeg example_env ''-re''] init)
   \<and> shutting_down (run [StartFfmpeg example_env ''-re'', Restore (Inr ())] init)
   \<and> shutting_down (run ([StartFfmpeg example_env ''-re'', Restore (Inr ())]
        @ [StartFfmpeg example_env ''-re'', VideoPipeline example_env]) init)"
proof -
  have a: "\<not> shutting_down (run [StartFfmpeg example_env ''-re''] init)"
    by (simp add: init_def start_ffmpeg_def wait_timeout_def example_env_def Let_def)
  have b: "shutting_down (run [StartFfmpeg example_env ''-re'', Restore (Inr ())] init)"
    by (simp add: init_def start_ffmpeg_def wait_timeout_def example_env_def Let_def
        restore_def try_except_pass_def)
  from b shutting_down_false_to_true_only
          [of "step (StartFfmpeg example_env ''-re'') init" "Restore (Inr ())" "Inr ()"
              "[StartFfmpeg example_env ''-re'', Restore (Inr ())]"
              "[StartFfmpeg example_env ''-re'', VideoPipeline example_env]"]
  have "shutting_down (run ([StartFfmpeg example_env ''-re'', Restore (Inr ())]
        @ [StartFfmpeg example_env ''-re'', VideoPipeline example_env]) init)"
    by blast
  with a b show ?thesis by blast
qed

text \<open>
  C10. \<^verbatim>\<open>restore\<close> returns normally whatever \<^verbatim>\<open>terminate()\<close> does, also when it
  raises, and the handle field is \<^verbatim>\<open>None\<close> afterwards.
\<close>

theorem restore_never_raises:
  "fst (restore t s) = Inr () \<and> ffmpeg_proc (fst (snd (restore t s))) = None"
  by (cases t; cases "ffmpeg_proc s")
     (auto simp add: restore_def try_except_pass_def Let_def split: py_exception.splits)

end
